theory Spec2Isabelle
  imports Complex_Main "HOL-Library.AList"
begin

section \<open>The X32 fader curve\<close>

text \<open>
  The brain process of the repository (\<^verbatim>\<open>src/brain_core.py\<close>) is embedded function by
  function. Python floats are modelled as rationals: every finite float is a rational,
  the comparisons of the source are exact on them, and the only arithmetic of the source
  is on the constants of the curve. Rounding, infinities and NaN are outside the model.
\<close>

definition fader_to_db :: "rat \<Rightarrow> rat" where
  "fader_to_db fader_val =
     (if fader_val \<ge> 1 / 2 then fader_val * 40 - 30
      else if fader_val \<ge> 1 / 4 then fader_val * 80 - 50
      else if fader_val > 1 / 16 then fader_val * 160 - 70
      else - 90)"

definition db_to_fader :: "rat \<Rightarrow> rat" where
  "db_to_fader db_val =
     (if db_val \<ge> - 10 then (db_val + 30) / 40
      else if db_val \<ge> - 30 then (db_val + 50) / 80
      else if db_val \<ge> - 60 then (db_val + 70) / 160
      else 0)"

section \<open>Channel strips and the brain's state\<close>

text \<open>
  \<^verbatim>\<open>ChannelStrip\<close>: the field \<^verbatim>\<open>id\<close> is named \<open>id_str\<close> here (\<open>id\<close> is the identity
  function of HOL); it holds the key of the configuration's \<^verbatim>\<open>channels\<close> object, a string.
\<close>

record ChannelStrip =
  id_str :: string
  name :: string
  group :: string
  priority :: string
  current_dbfs :: rat
  current_fader_level :: rat
  target_fader_level :: rat
  is_overridden :: bool
  override_end_time :: rat

text \<open>
  The constructor reads \<^verbatim>\<open>config_data\<close> with \<^verbatim>\<open>dict.get\<close> and its defaults; the
  JSON object is an association list of string fields.
\<close>

definition ChannelStrip_init :: "string \<Rightarrow> (string \<times> string) list \<Rightarrow> ChannelStrip" where
  "ChannelStrip_init channel_id config_data =
     \<lparr> id_str = channel_id,
       name = (case map_of config_data ''name'' of Some n \<Rightarrow> n | None \<Rightarrow> ''Ch '' @ channel_id),
       group = (case map_of config_data ''group'' of Some g \<Rightarrow> g | None \<Rightarrow> ''ignore''),
       priority = (case map_of config_data ''priority'' of Some p \<Rightarrow> p | None \<Rightarrow> ''none''),
       current_dbfs = - 90,
       current_fader_level = 0,
       target_fader_level = 3 / 4,
       is_overridden = False,
       override_end_time = 0 \<rparr>"

text \<open>
  \<^verbatim>\<open>BrainCore\<close>: the channel table is a Python dict, which iterates in insertion order;
  it is an association list here. The module global \<^verbatim>\<open>TARGET_BUS_IDX\<close> is a field of the
  state. The MQTT client and the broker address carry no logic and are left out.
\<close>

record BrainCore =
  channels :: "(string \<times> ChannelStrip) list"
  speech_active :: bool
  TARGET_BUS_IDX :: "int list"

text \<open>
  The parsed configuration file: \<open>None\<close> stands for a file that is missing or does not
  parse (the \<^verbatim>\<open>except\<close> branch of \<^verbatim>\<open>load_config\<close>), and each of the two keys may be absent.
\<close>

record config_data =
  cfg_channels :: "(string \<times> (string \<times> string) list) list option"
  cfg_target_bus :: "int list option"

definition load_config :: "config_data option \<Rightarrow> BrainCore" where
  "load_config file =
     (case file of
        None \<Rightarrow> \<lparr> channels = [], speech_active = False, TARGET_BUS_IDX = [11, 12] \<rparr>
      | Some data \<Rightarrow>
          \<lparr> channels =
              map (\<lambda>(ch_id, ch_data). (ch_id, ChannelStrip_init ch_id ch_data))
                (case cfg_channels data of None \<Rightarrow> [] | Some chs \<Rightarrow> chs),
            speech_active = False,
            TARGET_BUS_IDX = (case cfg_target_bus data of None \<Rightarrow> [11, 12] | Some bs \<Rightarrow> bs) \<rparr>)"

section \<open>Channel numbers in OSC addresses\<close>

text \<open>
  \<^verbatim>\<open>int(ch.id)\<close> on a string of ASCII characters: white space around the number is
  dropped, one sign is allowed, and the digits may be separated by single underscores.
  Anything else raises \<^verbatim>\<open>ValueError\<close>, which is \<open>None\<close> here. Characters beyond ASCII
  and the interpreter's limit on the length of a numeral are outside the model.
\<close>

datatype error = ValueError

definition is_space :: "char \<Rightarrow> bool" where
  "is_space c = (of_char c \<in> {9, 10, 11, 12, 13, 32 :: nat})"

definition is_digit :: "char \<Rightarrow> bool" where
  "is_digit c = (48 \<le> (of_char c :: nat) \<and> (of_char c :: nat) \<le> 57)"

definition digit_val :: "char \<Rightarrow> nat" where
  "digit_val c = of_char c - 48"

definition strip :: "string \<Rightarrow> string" where
  "strip s = rev (dropWhile is_space (rev (dropWhile is_space s)))"

fun more_digits :: "nat \<Rightarrow> string \<Rightarrow> nat option" where
  "more_digits acc [] = Some acc"
| "more_digits acc [c] = (if is_digit c then Some (acc * 10 + digit_val c) else None)"
| "more_digits acc (c # d # ds) =
     (if is_digit c then more_digits (acc * 10 + digit_val c) (d # ds)
      else if c = CHR ''_'' \<and> is_digit d then more_digits (acc * 10 + digit_val d) ds
      else None)"

definition unsigned :: "string \<Rightarrow> nat option" where
  "unsigned s =
     (case s of [] \<Rightarrow> None
      | c # cs \<Rightarrow> if is_digit c then more_digits (digit_val c) cs else None)"

definition py_int :: "string \<Rightarrow> int option" where
  "py_int s =
     (case strip s of [] \<Rightarrow> None
      | c # cs \<Rightarrow>
          if c = CHR ''-'' then map_option (\<lambda>n. - int n) (unsigned cs)
          else if c = CHR ''+'' then map_option int (unsigned cs)
          else map_option int (unsigned (c # cs)))"

text \<open>
  The format \<^verbatim>\<open>{n:02d}\<close>: decimal digits, padded with zeros to a width of two; the sign
  of a negative number counts in the width.
\<close>

fun str_nat :: "nat \<Rightarrow> string" where
  "str_nat n = (if n < 10 then [char_of (48 + n)] else str_nat (n div 10) @ [char_of (48 + n mod 10)])"

declare str_nat.simps [simp del]

definition format_02d :: "int \<Rightarrow> string" where
  "format_02d n =
     (if n < 0 then CHR ''-'' # str_nat (nat (- n))
      else let ds = str_nat (nat n) in if length ds < 2 then CHR ''0'' # ds else ds)"

section \<open>The decision pass\<close>

record CommandMessage =
  address :: string
  args :: "rat list"

text \<open>
  The group policy of \<^verbatim>\<open>run_mixing_logic\<close> (``Logic by Group''): the new target in dB,
  or \<open>None\<close> where the source says \<^verbatim>\<open>continue\<close>.
\<close>

definition group_policy :: "rat \<Rightarrow> ChannelStrip \<Rightarrow> rat option" where
  "group_policy duck ch =
     (if group ch = ''drums'' \<or> group ch = ''band'' then Some (0 + duck)
      else if group ch = ''vocals'' then
        (let error = - 18 - current_dbfs ch
         in if \<bar>error\<bar> < 2 then None else Some 0)
      else if group ch = ''speech'' then Some 0
      else None)"

text \<open>
  The rest of an iteration, for a channel that automation may touch: the policy, the
  conversion to a fader value and the OSC command for bus 11. \<^verbatim>\<open>int(ch.id)\<close> raises on
  a channel key that is not a number.
\<close>

datatype decision = Skip | Emit CommandMessage | Raise error

definition decide :: "rat \<Rightarrow> ChannelStrip \<Rightarrow> decision" where
  "decide duck ch =
     (case group_policy duck ch of
        None \<Rightarrow> Skip
      | Some new_target_db \<Rightarrow>
          (let fader_val = db_to_fader new_target_db
           in case py_int (id_str ch) of
                None \<Rightarrow> Raise ValueError
              | Some n \<Rightarrow>
                  Emit \<lparr> address = ''/ch/'' @ format_02d n @ ''/mix/11/level'',
                         args = [fader_val] \<rparr>))"

text \<open>
  One iteration of the loop over \<^verbatim>\<open>self.channels.values()\<close>: the strip after it, the
  lines it logs, and what it does to the batch. \<open>now\<close> is the value of \<^verbatim>\<open>time.time()\<close>,
  which the source reads only for an overridden channel.
\<close>

definition mix_channel :: "rat \<Rightarrow> rat \<Rightarrow> ChannelStrip \<Rightarrow> ChannelStrip \<times> string list \<times> decision" where
  "mix_channel now duck ch =
     (if is_overridden ch then
        (if now > override_end_time ch then
           (ch\<lparr>is_overridden := False\<rparr>, [''Override ended for '' @ name ch],
            decide duck (ch\<lparr>is_overridden := False\<rparr>))
         else (ch, [], Skip))
      else (ch, [], decide duck ch))"

text \<open>
  The loop. \<open>clock k\<close> is the time read while the channel under key \<open>k\<close> is visited. An
  exception leaves the loop at once: the strips after the raising one are not visited,
  and the batch collected so far is never published.
\<close>

fun mixing_loop ::
  "(string \<Rightarrow> rat) \<Rightarrow> rat \<Rightarrow> (string \<times> ChannelStrip) list \<Rightarrow>
     (string \<times> ChannelStrip) list \<times> string list \<times> (error + CommandMessage list)" where
  "mixing_loop clock duck [] = ([], [], Inr [])"
| "mixing_loop clock duck ((k, ch) # rest) =
     (case mix_channel (clock k) duck ch of
        (ch', lg, Raise e) \<Rightarrow> ((k, ch') # rest, lg, Inl e)
      | (ch', lg, Skip) \<Rightarrow>
          (case mixing_loop clock duck rest of
             (rest', lg', r) \<Rightarrow> ((k, ch') # rest', lg @ lg', r))
      | (ch', lg, Emit cmd) \<Rightarrow>
          (case mixing_loop clock duck rest of
             (rest', lg', r) \<Rightarrow> ((k, ch') # rest', lg @ lg', map_sum id ((#) cmd) r)))"

text \<open>
  What a call of \<^verbatim>\<open>run_mixing_logic\<close> or \<^verbatim>\<open>process_telemetry\<close> leaves behind: the state, the lines logged, and either the exception that
  escaped or the commands published on \<^verbatim>\<open>x32/commands\<close>, in order.
\<close>

record cycle =
  brain :: BrainCore
  logged :: "string list"
  published :: "error + CommandMessage list"

text \<open>
  The first statement of \<^verbatim>\<open>run_mixing_logic\<close>: \<^verbatim>\<open>duck_amount = -4.0 if self.speech_active else 0.0\<close>.
  The loop and its body take the value as their parameter \<open>duck\<close>.
\<close>

definition duck_amount :: "BrainCore \<Rightarrow> rat" where
  "duck_amount b = (if speech_active b then - 4 else 0)"

definition run_mixing_logic :: "(string \<Rightarrow> rat) \<Rightarrow> BrainCore \<Rightarrow> cycle" where
  "run_mixing_logic clock b =
     (case mixing_loop clock (duck_amount b) (channels b) of
        (chans, lg, r) \<Rightarrow> \<lparr> brain = b\<lparr>channels := chans\<rparr>, logged = lg, published = r \<rparr>)"

text \<open>
  The update loop of \<^verbatim>\<open>process_telemetry\<close> over \<^verbatim>\<open>levels.items()\<close>, with the running
  maximum of the speech channels.
\<close>

fun update_levels ::
  "(string \<times> rat) list \<Rightarrow> (string \<times> ChannelStrip) list \<Rightarrow> rat \<Rightarrow>
     (string \<times> ChannelStrip) list \<times> rat" where
  "update_levels [] chans max_speech_db = (chans, max_speech_db)"
| "update_levels ((ch_id, db_val) # rest) chans max_speech_db =
     (case map_of chans ch_id of
        None \<Rightarrow> update_levels rest chans max_speech_db
      | Some ch \<Rightarrow>
          update_levels rest
            (AList.map_entry ch_id (\<lambda>c. c\<lparr>current_dbfs := db_val\<rparr>) chans)
            (if group ch = ''speech'' \<and> db_val > - 35 then max max_speech_db db_val
             else max_speech_db))"

definition process_telemetry :: "(string \<Rightarrow> rat) \<Rightarrow> BrainCore \<Rightarrow> (string \<times> rat) list \<Rightarrow> cycle" where
  "process_telemetry clock b levels =
     (case update_levels levels (channels b) (- 90) of
        (chans, max_speech_db) \<Rightarrow>
          run_mixing_logic clock
            (b\<lparr>channels := chans, speech_active := (max_speech_db > - 35)\<rparr>))"

section \<open>Vocabulary of the properties\<close>

text \<open>The commands an iteration adds to the batch.\<close>

definition emitted :: "decision \<Rightarrow> CommandMessage list" where
  "emitted d = (case d of Emit cmd \<Rightarrow> [cmd] | _ \<Rightarrow> [])"

text \<open>
  Every channel key of the table is a number for \<^verbatim>\<open>int\<close>, as the keys \<^verbatim>\<open>"1"\<close> to \<^verbatim>\<open>"32"\<close>
  of a console are.
\<close>

definition numeric_ids :: "(string \<times> ChannelStrip) list \<Rightarrow> bool" where
  "numeric_ids chans = list_all (\<lambda>(k, ch). py_int (id_str ch) \<noteq> None) chans"

text \<open>
  What one pass may do to one entry of the table: nothing, or clear the override of an
  overridden strip whose end time has passed.
\<close>

definition override_transition ::
  "(string \<Rightarrow> rat) \<Rightarrow> string \<times> ChannelStrip \<Rightarrow> string \<times> ChannelStrip \<Rightarrow> bool" where
  "override_transition clock before after =
     (fst after = fst before \<and>
      (snd after = snd before \<or>
       (is_overridden (snd before) \<and> clock (fst before) > override_end_time (snd before) \<and>
        snd after = (snd before)\<lparr>is_overridden := False\<rparr>)))"

text \<open>
  What the update loop of \<^verbatim>\<open>process_telemetry\<close> may do to one entry of the table: write
  its \<^verbatim>\<open>current_dbfs\<close>.
\<close>

definition level_update :: "string \<times> ChannelStrip \<Rightarrow> string \<times> ChannelStrip \<Rightarrow> bool" where
  "level_update before after =
     (fst after = fst before \<and> (\<exists>db. snd after = (snd before)\<lparr>current_dbfs := db\<rparr>))"

text \<open>A clock that shows the same time \<open>t\<close> at every read of one pass.\<close>

definition clock_at :: "rat \<Rightarrow> string \<Rightarrow> rat" where
  "clock_at t k = t"

text \<open>
  The configuration of the scenario in the specification: channel \<^verbatim>\<open>"1"\<close> in the group
  \<^verbatim>\<open>speech\<close>, channel \<^verbatim>\<open>"2"\<close> in the group \<^verbatim>\<open>drums\<close>, and the target bus 11. The second
  configuration has one speech channel and no \<^verbatim>\<open>target_bus\<close> key, so the default
  \<^verbatim>\<open>[11, 12]\<close> applies, and so does the third, with a speech and a drums channel. The
  fourth names bus 5 as its only target.
\<close>

definition scenario_brain :: BrainCore where
  "scenario_brain =
     load_config (Some \<lparr> cfg_channels = Some [(''1'', [(''group'', ''speech'')]),
                                                (''2'', [(''group'', ''drums'')])],
                          cfg_target_bus = Some [11] \<rparr>)"

definition default_bus_brain :: BrainCore where
  "default_bus_brain =
     load_config (Some \<lparr> cfg_channels = Some [(''1'', [(''group'', ''speech'')])],
                          cfg_target_bus = None \<rparr>)"

definition linked_pair_brain :: BrainCore where
  "linked_pair_brain =
     load_config (Some \<lparr> cfg_channels = Some [(''1'', [(''group'', ''speech'')]),
                                                (''2'', [(''group'', ''drums'')])],
                          cfg_target_bus = None \<rparr>)"

definition bus_5_brain :: BrainCore where
  "bus_5_brain =
     load_config (Some \<lparr> cfg_channels = Some [(''1'', [(''group'', ''speech'')])],
                          cfg_target_bus = Some [5] \<rparr>)"

text \<open>
  A table with the single vocals channel \<^verbatim>\<open>"3"\<close> whose last reading is \<open>db\<close>, and a table
  with the single drums channel \<^verbatim>\<open>"2"\<close> under a manual override that ends at \<open>t\<close>.
\<close>

definition vocal_strip :: "rat \<Rightarrow> ChannelStrip" where
  "vocal_strip db = (ChannelStrip_init ''3'' [(''group'', ''vocals'')])\<lparr>current_dbfs := db\<rparr>"

definition vocal_brain :: "rat \<Rightarrow> BrainCore" where
  "vocal_brain db =
     \<lparr> channels = [(''3'', vocal_strip db)], speech_active = False, TARGET_BUS_IDX = [11, 12] \<rparr>"

definition locked_strip :: "rat \<Rightarrow> ChannelStrip" where
  "locked_strip t =
     (ChannelStrip_init ''2'' [(''group'', ''drums'')])\<lparr>is_overridden := True, override_end_time := t\<rparr>"

definition locked_brain :: "rat \<Rightarrow> BrainCore" where
  "locked_brain t =
     \<lparr> channels = [(''2'', locked_strip t)], speech_active = False, TARGET_BUS_IDX = [11, 12] \<rparr>"

section \<open>The loop of the decision pass\<close>

text \<open>
  With numeric channel keys no iteration raises, and the pass is the iteration mapped
  over the table: the strips, the log lines and the commands, each in visiting order.
\<close>

lemma decide_numeric: "py_int (id_str ch) \<noteq> None \<Longrightarrow> decide d ch \<noteq> Raise e"
  by (auto simp: decide_def Let_def split: option.splits)

lemma mix_channel_numeric:
  "py_int (id_str ch) \<noteq> None \<Longrightarrow> snd (snd (mix_channel now d ch)) \<noteq> Raise e"
  by (simp add: mix_channel_def decide_numeric)

lemma mix_channel_transition:
  "override_transition clock (k, ch) (k, fst (mix_channel (clock k) d ch))"
  by (simp add: mix_channel_def override_transition_def)

lemma mixing_loop_transition:
  "list_all2 (override_transition clock) chans (fst (mixing_loop clock d chans))"
proof (induction chans)
  case Nil
  show ?case by simp
next
  case (Cons p chans)
  obtain k ch where p: "p = (k, ch)" by (cases p)
  obtain ch' lg dec where m: "mix_channel (clock k) d ch = (ch', lg, dec)"
    by (cases "mix_channel (clock k) d ch")
  have t: "override_transition clock (k, ch) (k, ch')"
    using mix_channel_transition [of clock k ch d] m by simp
  have r: "list_all2 (override_transition clock) chans chans"
    by (simp add: list_all2_same override_transition_def)
  show ?case
    using Cons.IH t r p m by (cases dec) (auto split: prod.splits)
qed

lemma mixing_loop_length: "length (fst (mixing_loop clock d chans)) = length chans"
  using mixing_loop_transition [of clock chans d] by (simp add: list_all2_lengthD)

lemma mixing_loop_numeric:
  "numeric_ids chans \<Longrightarrow>
   mixing_loop clock d chans =
     (map (\<lambda>(k, ch). (k, fst (mix_channel (clock k) d ch))) chans,
      concat (map (\<lambda>(k, ch). fst (snd (mix_channel (clock k) d ch))) chans),
      Inr (concat (map (\<lambda>(k, ch). emitted (snd (snd (mix_channel (clock k) d ch)))) chans)))"
proof (induction chans)
  case Nil
  show ?case by simp
next
  case (Cons p chans)
  obtain k ch where p: "p = (k, ch)" by (cases p)
  obtain ch' lg dec where m: "mix_channel (clock k) d ch = (ch', lg, dec)"
    by (cases "mix_channel (clock k) d ch")
  from Cons.prems p have n: "py_int (id_str ch) \<noteq> None" and ns: "numeric_ids chans"
    by (simp_all add: numeric_ids_def)
  have nr: "dec \<noteq> Raise e" for e
    using mix_channel_numeric [OF n, of "clock k" d e] m by simp
  show ?case
    using Cons.IH [OF ns] p m nr by (cases dec) (auto simp: emitted_def)
qed

lemma numeric_ids_append:
  "numeric_ids (pre @ p # post) = (numeric_ids pre \<and> numeric_ids [p] \<and> numeric_ids post)"
  by (simp add: numeric_ids_def)

lemma run_mixing_logic_loop:
  "run_mixing_logic clock b =
     \<lparr> brain = b\<lparr>channels := fst (mixing_loop clock (duck_amount b) (channels b))\<rparr>,
       logged = fst (snd (mixing_loop clock (duck_amount b) (channels b))),
       published = snd (snd (mixing_loop clock (duck_amount b) (channels b))) \<rparr>"
  by (simp add: run_mixing_logic_def split: prod.splits)

lemma duck_amount_channels [simp]: "duck_amount (b\<lparr>channels := chans\<rparr>) = duck_amount b"
  by (simp add: duck_amount_def)

lemma run_mixing_logic_split:
  fixes clock :: "string \<Rightarrow> rat" and b :: BrainCore and k :: string and ch :: ChannelStrip
  assumes n: "numeric_ids (channels b)" and c: "channels b = pre @ (k, ch) # post"
  defines "m \<equiv> mix_channel (clock k) (duck_amount b) ch"
  shows "\<exists>cs1 cs2.
     published (run_mixing_logic clock (b\<lparr>channels := pre\<rparr>)) = Inr cs1 \<and>
     published (run_mixing_logic clock (b\<lparr>channels := post\<rparr>)) = Inr cs2 \<and>
     published (run_mixing_logic clock b) = Inr (cs1 @ emitted (snd (snd m)) @ cs2) \<and>
     logged (run_mixing_logic clock b) =
       logged (run_mixing_logic clock (b\<lparr>channels := pre\<rparr>)) @ fst (snd m) @
       logged (run_mixing_logic clock (b\<lparr>channels := post\<rparr>)) \<and>
     channels (brain (run_mixing_logic clock b)) ! length pre = (k, fst m)"
proof -
  from n c have n1: "numeric_ids pre" and n2: "numeric_ids post"
    by (simp_all add: numeric_ids_append)
  from n c have n3: "numeric_ids (pre @ (k, ch) # post)" by simp
  show ?thesis
    unfolding run_mixing_logic_loop m_def
    by (simp add: c mixing_loop_numeric [OF n1] mixing_loop_numeric [OF n2]
        mixing_loop_numeric [OF n3] nth_append)
qed

lemma mixing_loop_skip:
  assumes s: "mix_channel (clock k) d ch = (ch, [], Skip)"
  shows "mixing_loop clock d (pre @ (k, ch) # post) =
     (case mixing_loop clock d (pre @ post) of
        (chs, lg, r) \<Rightarrow> (take (length pre) chs @ (k, ch) # drop (length pre) chs, lg, r))"
proof (induction pre)
  case Nil
  show ?case using s by (simp split: prod.splits)
next
  case (Cons p pre)
  obtain k' ch' where p: "p = (k', ch')" by (cases p)
  obtain ch'' lg dec where m: "mix_channel (clock k') d ch' = (ch'', lg, dec)"
    by (cases "mix_channel (clock k') d ch'")
  show ?case
    using Cons.IH p m by (cases dec) (auto split: prod.splits)
qed

lemma run_mixing_logic_skip:
  fixes clock :: "string \<Rightarrow> rat" and b :: BrainCore and k :: string and ch :: ChannelStrip
  assumes s: "mix_channel (clock k) (duck_amount b) ch = (ch, [], Skip)"
    and c: "channels b = pre @ (k, ch) # post"
  shows "published (run_mixing_logic clock b) = published (run_mixing_logic clock (b\<lparr>channels := pre @ post\<rparr>)) \<and>
     logged (run_mixing_logic clock b) = logged (run_mixing_logic clock (b\<lparr>channels := pre @ post\<rparr>)) \<and>
     channels (brain (run_mixing_logic clock b)) ! length pre = (k, ch)"
proof -
  obtain chs lg r where m: "mixing_loop clock (duck_amount b) (pre @ post) = (chs, lg, r)"
    by (cases "mixing_loop clock (duck_amount b) (pre @ post)")
  have "length (fst (mixing_loop clock (duck_amount b) (pre @ post))) = length pre + length post"
    by (simp add: mixing_loop_length)
  with m have l: "length chs = length pre + length post" by simp
  have e: "mixing_loop clock (duck_amount b) (pre @ (k, ch) # post) =
      (take (length pre) chs @ (k, ch) # drop (length pre) chs, lg, r)"
    using mixing_loop_skip [where clock = clock and k = k, OF s, of pre post] m by simp
  show ?thesis
    unfolding run_mixing_logic_loop
    using l by (simp add: c e m nth_append)
qed

section \<open>The fader curve at and between its breakpoints\<close>

text \<open>
  C3. The curve at its lowest breakpoint \<open>(0.0625, -60)\<close>: \<open>db_to_fader\<close> sends -60 dB to
  0.0625, but \<open>fader_to_db\<close> compares with \<open>>\<close> and sends 0.0625 to the floor -90, so
  neither round trip returns to the breakpoint. All the values involved are exact in
  binary floating point, so the same holds of the floats.
\<close>

theorem fader_curve_lowest_breakpoint:
  "fader_to_db (1 / 16) = - 90 \<and> db_to_fader (- 60) = 1 / 16 \<and>
   db_to_fader (fader_to_db (1 / 16)) = 0 \<and> fader_to_db (db_to_fader (- 60)) = - 90"
  by (simp add: fader_to_db_def db_to_fader_def)

text \<open>The other four breakpoints agree in both directions.\<close>

lemma fader_curve_upper_breakpoints:
  "fader_to_db (1 / 4) = - 30 \<and> db_to_fader (- 30) = 1 / 4 \<and>
   fader_to_db (1 / 2) = - 10 \<and> db_to_fader (- 10) = 1 / 2 \<and>
   fader_to_db (3 / 4) = 0 \<and> db_to_fader 0 = 3 / 4 \<and>
   fader_to_db 1 = 10 \<and> db_to_fader 10 = 1"
  by (simp add: fader_to_db_def db_to_fader_def)

text \<open>
  C10. Above the silence floor \<open>fader_to_db\<close> undoes \<open>db_to_fader\<close> exactly, with no upper
  bound on the level; at and below -60 dB the round trip yields -90.
\<close>

theorem fader_to_db_db_to_fader:
  "(db > - 60 \<longrightarrow> fader_to_db (db_to_fader db) = db) \<and>
   (db \<le> - 60 \<longrightarrow> fader_to_db (db_to_fader db) = - 90)"
  by (simp add: fader_to_db_def db_to_fader_def add_divide_distrib)

theorem fader_to_db_db_to_fader_witness:
  "(- 4 :: rat) > - 60 \<and> fader_to_db (db_to_fader (- 4)) = - 4 \<and>
   (- 60 :: rat) \<le> - 60 \<and> fader_to_db (db_to_fader (- 60)) = - 90"
  using fader_to_db_db_to_fader [of "- 4"] fader_to_db_db_to_fader [of "- 60"] by simp

section \<open>The commands of a pass\<close>

text \<open>
  A channel key that is not a number makes the pass raise once the channel is due a
  command: nothing is published in that cycle. The properties below that speak of emitted
  commands therefore take tables with numeric keys.
\<close>

lemma non_numeric_key_raises:
  "published (run_mixing_logic (clock_at 0)
     \<lparr> channels = [(''kick'', ChannelStrip_init ''kick'' [(''group'', ''drums'')])],
       speech_active = False, TARGET_BUS_IDX = [11, 12] \<rparr>) = Inl ValueError"
  by code_simp

text \<open>For the channel numbers 0 to 99 the formatted number has two digits.\<close>

lemma str_nat_one_digit: "n < 10 \<Longrightarrow> length (str_nat n) = 1"
  by (simp add: str_nat.simps)

lemma str_nat_two_digits: "10 \<le> n \<Longrightarrow> n < 100 \<Longrightarrow> length (str_nat n) = 2"
proof -
  assume a: "10 \<le> n" and b: "n < 100"
  then have "n div 10 < 10" by simp
  then have "length (str_nat (n div 10)) = 1" by (rule str_nat_one_digit)
  with a show ?thesis by (simp add: str_nat.simps [of n])
qed

lemma format_02d_width: "0 \<le> n \<Longrightarrow> n < 100 \<Longrightarrow> length (format_02d n) = 2"
proof -
  assume a: "0 \<le> n" and b: "n < 100"
  show ?thesis
  proof (cases "nat n < 10")
    case True
    with a show ?thesis by (simp add: format_02d_def str_nat_one_digit)
  next
    case False
    with a b have "length (str_nat (nat n)) = 2" by (intro str_nat_two_digits) auto
    with a show ?thesis by (simp add: format_02d_def)
  qed
qed

text \<open>The tables of the examples, evaluated.\<close>

lemma scenario_channels:
  "channels scenario_brain =
     [(''1'', ChannelStrip_init ''1'' [(''group'', ''speech'')]),
      (''2'', ChannelStrip_init ''2'' [(''group'', ''drums'')])]"
  by (simp add: scenario_brain_def load_config_def)

lemma py_int_examples:
  "py_int ''1'' = Some 1" "py_int ''2'' = Some 2" "py_int ''3'' = Some 3"
  by code_simp+

lemma format_02d_examples:
  "format_02d 1 = ''01''" "format_02d 2 = ''02''" "format_02d 3 = ''03''"
  by code_simp+

lemma mix_channel_normal:
  "\<not> is_overridden ch \<Longrightarrow> mix_channel now d ch = (ch, [], decide d ch)"
  by (simp add: mix_channel_def)

lemma decide_emit:
  "group_policy d ch = Some target_db \<Longrightarrow> py_int (id_str ch) = Some n \<Longrightarrow>
   decide d ch =
     Emit \<lparr> address = ''/ch/'' @ format_02d n @ ''/mix/11/level'', args = [db_to_fader target_db] \<rparr>"
  by (simp add: decide_def)

lemma numeric_ids_entry:
  "numeric_ids chans \<Longrightarrow> chans = pre @ (k, ch) # post \<Longrightarrow> \<exists>n. py_int (id_str ch) = Some n"
  by (auto simp: numeric_ids_def)

lemma linked_pair_channels:
  "channels linked_pair_brain =
     [(''1'', ChannelStrip_init ''1'' [(''group'', ''speech'')]),
      (''2'', ChannelStrip_init ''2'' [(''group'', ''drums'')])]"
  by (simp add: linked_pair_brain_def load_config_def)

lemma linked_pair_target_bus: "TARGET_BUS_IDX linked_pair_brain = [11, 12]"
  by (simp add: linked_pair_brain_def load_config_def)

text \<open>
  C1, as the code has it by design. With the default target buses 11 and 12, the linked
  stereo pair, a channel that is not overridden and is in the group drums, band or
  speech, or in the group vocals outside the deadband, gets exactly one command in the
  batch of the pass, between the commands of the channels before it and those of the
  channels after it. The command is addressed to \<^verbatim>\<open>/ch/{id:02d}/mix/11/level\<close>, the odd bus
  of the pair, and its arguments are the single converted fader value: that of the ducking
  offset for drums and band, that of 0 dB for speech and vocals.
\<close>

theorem one_command_per_channel_on_bus_11:
  assumes n: "numeric_ids (channels b)"
    and t: "TARGET_BUS_IDX b = [11, 12]"
    and c: "channels b = pre @ (k, ch) # post"
    and o: "\<not> is_overridden ch"
    and g: "group ch = ''drums'' \<or> group ch = ''band'' \<or> group ch = ''speech'' \<or>
            (group ch = ''vocals'' \<and> \<not> \<bar>- 18 - current_dbfs ch\<bar> < 2)"
  shows "\<exists>n cs1 cs2. py_int (id_str ch) = Some n \<and>
     published (run_mixing_logic clock (b\<lparr>channels := pre\<rparr>)) = Inr cs1 \<and>
     published (run_mixing_logic clock (b\<lparr>channels := post\<rparr>)) = Inr cs2 \<and>
     published (run_mixing_logic clock b) =
       Inr (cs1 @
            [\<lparr> address = ''/ch/'' @ format_02d n @ ''/mix/11/level'',
                args = [db_to_fader
                  (if group ch = ''drums'' \<or> group ch = ''band''
                   then 0 + (if speech_active b then - 4 else 0) else 0)] \<rparr>] @
            cs2)"
proof -
  let ?t = "if group ch = ''drums'' \<or> group ch = ''band''
            then 0 + (if speech_active b then - 4 else 0) else (0 :: rat)"
  have p: "group_policy (duck_amount b) ch = Some ?t"
    using g by (auto simp: group_policy_def duck_amount_def)
  from numeric_ids_entry [OF n c] obtain i where i: "py_int (id_str ch) = Some i" ..
  have m: "mix_channel (clock k) (duck_amount b) ch =
      (ch, [], Emit \<lparr> address = ''/ch/'' @ format_02d i @ ''/mix/11/level'',
                       args = [db_to_fader ?t] \<rparr>)"
    by (simp only: mix_channel_normal [OF o] decide_emit [OF p i])
  from run_mixing_logic_split [OF n c, of clock] m i show ?thesis
    by (auto simp: emitted_def)
qed

theorem one_command_per_channel_on_bus_11_witness:
  "numeric_ids (channels linked_pair_brain) \<and>
   TARGET_BUS_IDX linked_pair_brain = [11, 12] \<and>
   channels linked_pair_brain =
     [] @ (''1'', ChannelStrip_init ''1'' [(''group'', ''speech'')]) #
     [(''2'', ChannelStrip_init ''2'' [(''group'', ''drums'')])] \<and>
   channels linked_pair_brain =
     [(''1'', ChannelStrip_init ''1'' [(''group'', ''speech'')])] @
     (''2'', ChannelStrip_init ''2'' [(''group'', ''drums'')]) # [] \<and>
   \<not> is_overridden (ChannelStrip_init ''1'' [(''group'', ''speech'')]) \<and>
   \<not> is_overridden (ChannelStrip_init ''2'' [(''group'', ''drums'')]) \<and>
   group (ChannelStrip_init ''1'' [(''group'', ''speech'')]) = ''speech'' \<and>
   group (ChannelStrip_init ''2'' [(''group'', ''drums'')]) = ''drums'' \<and>
   (\<exists>n cs1 cs2. py_int (id_str (ChannelStrip_init ''1'' [(''group'', ''speech'')])) = Some n \<and>
     published (run_mixing_logic (clock_at 0) (linked_pair_brain\<lparr>channels := []\<rparr>)) = Inr cs1 \<and>
     published (run_mixing_logic (clock_at 0)
        (linked_pair_brain\<lparr>channels := [(''2'', ChannelStrip_init ''2'' [(''group'', ''drums'')])]\<rparr>)) = Inr cs2 \<and>
     published (run_mixing_logic (clock_at 0) linked_pair_brain) =
       Inr (cs1 @ [\<lparr> address = ''/ch/'' @ format_02d n @ ''/mix/11/level'',
                      args = [db_to_fader 0] \<rparr>] @ cs2)) \<and>
   (\<exists>n cs1 cs2. py_int (id_str (ChannelStrip_init ''2'' [(''group'', ''drums'')])) = Some n \<and>
     published (run_mixing_logic (clock_at 0)
        (linked_pair_brain\<lparr>channels := [(''1'', ChannelStrip_init ''1'' [(''group'', ''speech'')])]\<rparr>)) = Inr cs1 \<and>
     published (run_mixing_logic (clock_at 0) (linked_pair_brain\<lparr>channels := []\<rparr>)) = Inr cs2 \<and>
     published (run_mixing_logic (clock_at 0) linked_pair_brain) =
       Inr (cs1 @ [\<lparr> address = ''/ch/'' @ format_02d n @ ''/mix/11/level'',
                      args = [db_to_fader (0 + 0)] \<rparr>] @ cs2)) \<and>
   published (run_mixing_logic (clock_at 0) linked_pair_brain) =
     Inr [\<lparr> address = ''/ch/01/mix/11/level'', args = [3 / 4] \<rparr>,
          \<lparr> address = ''/ch/02/mix/11/level'', args = [3 / 4] \<rparr>]"
proof -
  let ?c1 = "ChannelStrip_init ''1'' [(''group'', ''speech'')]"
  let ?c2 = "ChannelStrip_init ''2'' [(''group'', ''drums'')]"
  have h1: "numeric_ids (channels linked_pair_brain)"
    by (simp add: linked_pair_channels numeric_ids_def ChannelStrip_init_def py_int_examples)
  have h2: "TARGET_BUS_IDX linked_pair_brain = [11, 12]"
    by (rule linked_pair_target_bus)
  have s1: "channels linked_pair_brain = [] @ (''1'', ?c1) # [(''2'', ?c2)]"
    by (simp add: linked_pair_channels)
  have s2: "channels linked_pair_brain = [(''1'', ?c1)] @ (''2'', ?c2) # []"
    by (simp add: linked_pair_channels)
  have o1: "\<not> is_overridden ?c1" by (simp add: ChannelStrip_init_def)
  have o2: "\<not> is_overridden ?c2" by (simp add: ChannelStrip_init_def)
  have g1: "group ?c1 = ''speech''" by (simp add: ChannelStrip_init_def)
  have g2: "group ?c2 = ''drums''" by (simp add: ChannelStrip_init_def)
  have a1: "group ?c1 = ''drums'' \<or> group ?c1 = ''band'' \<or> group ?c1 = ''speech'' \<or>
            (group ?c1 = ''vocals'' \<and> \<not> \<bar>- 18 - current_dbfs ?c1\<bar> < 2)"
    using g1 by simp
  have a2: "group ?c2 = ''drums'' \<or> group ?c2 = ''band'' \<or> group ?c2 = ''speech'' \<or>
            (group ?c2 = ''vocals'' \<and> \<not> \<bar>- 18 - current_dbfs ?c2\<bar> < 2)"
    using g2 by simp
  have q: "\<not> speech_active linked_pair_brain"
    by (simp add: linked_pair_brain_def load_config_def)
  have t1: "(if group ?c1 = ''drums'' \<or> group ?c1 = ''band''
             then 0 + (if speech_active linked_pair_brain then - 4 else 0) else (0 :: rat)) = 0"
    using g1 by simp
  have t2: "(if group ?c2 = ''drums'' \<or> group ?c2 = ''band''
             then 0 + (if speech_active linked_pair_brain then - 4 else 0) else (0 :: rat)) = 0 + 0"
    using g2 q by simp
  note r1 = one_command_per_channel_on_bus_11 [OF h1 h2 s1 o1 a1, of "clock_at 0", unfolded t1]
  note r2 = one_command_per_channel_on_bus_11 [OF h1 h2 s2 o2 a2, of "clock_at 0", unfolded t2]
  have e: "published (run_mixing_logic (clock_at 0) linked_pair_brain) =
     Inr [\<lparr> address = ''/ch/01/mix/11/level'', args = [3 / 4] \<rparr>,
          \<lparr> address = ''/ch/02/mix/11/level'', args = [3 / 4] \<rparr>]"
    by code_simp
  from h1 h2 s1 s2 o1 o2 g1 g2 r1 r2 e show ?thesis by blast
qed

text \<open>
  With the default target buses 11 and 12 and one speech channel, the pass publishes one
  command, for bus 11, and not one per target bus.
\<close>

theorem one_command_per_channel_counterexample:
  "TARGET_BUS_IDX default_bus_brain = [11, 12] \<and>
   published (process_telemetry (clock_at 0) default_bus_brain [(''1'', - 20)]) =
     Inr [\<lparr> address = ''/ch/01/mix/11/level'', args = [3 / 4] \<rparr>] \<and>
   published (process_telemetry (clock_at 0) default_bus_brain [(''1'', - 20)]) \<noteq>
     Inr [\<lparr> address = ''/ch/01/mix/11/level'', args = [3 / 4] \<rparr>,
          \<lparr> address = ''/ch/01/mix/12/level'', args = [3 / 4] \<rparr>]"
  by code_simp

text \<open>
  The comment on \<^verbatim>\<open>TARGET_BUS_IDX\<close> says that the configuration can override the default,
  and \<^verbatim>\<open>load_config\<close> stores the configured list; the pass does not read it. A configured
  bus 5 still gets its command on bus 11, which the property above neither promises nor
  rules out.
\<close>

lemma configured_target_bus_not_read:
  "TARGET_BUS_IDX bus_5_brain = [5] \<and>
   published (process_telemetry (clock_at 0) bus_5_brain [(''1'', - 20)]) =
     Inr [\<lparr> address = ''/ch/01/mix/11/level'', args = [3 / 4] \<rparr>]"
  by code_simp

text \<open>
  Each group that has a policy is given its target: the ducking offset for drums and band,
  0 dB for speech and for vocals outside the deadband; every other group has none.
\<close>

lemma group_policy_targets:
  "(group ch = ''drums'' \<or> group ch = ''band'' \<longrightarrow> group_policy d ch = Some (0 + d)) \<and>
   (group ch = ''speech'' \<longrightarrow> group_policy d ch = Some 0) \<and>
   (group ch = ''vocals'' \<longrightarrow>
      group_policy d ch = (if \<bar>- 18 - current_dbfs ch\<bar> < 2 then None else Some 0)) \<and>
   (group ch \<notin> {''drums'', ''band'', ''speech'', ''vocals''} \<longrightarrow> group_policy d ch = None)"
  by (auto simp: group_policy_def)

section \<open>Ducking, the vocal deadband and the override\<close>

text \<open>The two outcomes of the override check at the head of an iteration.\<close>

lemma mix_channel_expired:
  "is_overridden ch \<Longrightarrow> now > override_end_time ch \<Longrightarrow>
   mix_channel now d ch =
     (ch\<lparr>is_overridden := False\<rparr>, [''Override ended for '' @ name ch],
      decide d (ch\<lparr>is_overridden := False\<rparr>))"
  by (simp add: mix_channel_def)

lemma mix_channel_locked:
  "is_overridden ch \<Longrightarrow> now \<le> override_end_time ch \<Longrightarrow> mix_channel now d ch = (ch, [], Skip)"
  by (simp add: mix_channel_def)

text \<open>
  C2, with the value the code computes. While the ducking gate is active, a drums or band
  channel that is not overridden gets the target 0.0 + (-4.0) = -4.0 dB, and its command
  carries \<open>db_to_fader (-4) = (-4 + 30) / 40 = 0.65\<close>: -4 dB lies on the upper segment of
  the curve, not on the one the specification computes with.
\<close>

theorem ducked_music_fader:
  assumes n: "numeric_ids (channels b)"
    and a: "speech_active b"
    and c: "channels b = pre @ (k, ch) # post"
    and o: "\<not> is_overridden ch"
    and g: "group ch = ''drums'' \<or> group ch = ''band''"
  shows "group_policy (duck_amount b) ch = Some (0 + (- 4)) \<and>
     db_to_fader (0 + (- 4)) = 13 / 20 \<and>
     (\<exists>n cs1 cs2. py_int (id_str ch) = Some n \<and>
        published (run_mixing_logic clock b) =
          Inr (cs1 @ [\<lparr> address = ''/ch/'' @ format_02d n @ ''/mix/11/level'',
                         args = [13 / 20] \<rparr>] @ cs2))"
proof -
  have p: "group_policy (duck_amount b) ch = Some (0 + (- 4))"
    using a g by (auto simp: group_policy_def duck_amount_def)
  have f: "db_to_fader (0 + (- 4)) = 13 / 20"
    by (simp add: db_to_fader_def)
  from numeric_ids_entry [OF n c] obtain i where i: "py_int (id_str ch) = Some i" ..
  have m: "mix_channel (clock k) (duck_amount b) ch =
      (ch, [], Emit \<lparr> address = ''/ch/'' @ format_02d i @ ''/mix/11/level'', args = [13 / 20] \<rparr>)"
    using f by (simp add: mix_channel_normal [OF o] decide_emit [OF p i])
  from run_mixing_logic_split [OF n c, of clock] m i have
    "\<exists>n cs1 cs2. py_int (id_str ch) = Some n \<and>
        published (run_mixing_logic clock b) =
          Inr (cs1 @ [\<lparr> address = ''/ch/'' @ format_02d n @ ''/mix/11/level'',
                         args = [13 / 20] \<rparr>] @ cs2)"
    by (auto simp: emitted_def)
  with p f show ?thesis by blast
qed

theorem ducked_music_fader_witness:
  "numeric_ids (channels (scenario_brain\<lparr>speech_active := True\<rparr>)) \<and>
   speech_active (scenario_brain\<lparr>speech_active := True\<rparr>) \<and>
   channels (scenario_brain\<lparr>speech_active := True\<rparr>) =
     [(''1'', ChannelStrip_init ''1'' [(''group'', ''speech'')])] @
     (''2'', ChannelStrip_init ''2'' [(''group'', ''drums'')]) # [] \<and>
   \<not> is_overridden (ChannelStrip_init ''2'' [(''group'', ''drums'')]) \<and>
   group (ChannelStrip_init ''2'' [(''group'', ''drums'')]) = ''drums'' \<and>
   group_policy (duck_amount (scenario_brain\<lparr>speech_active := True\<rparr>))
     (ChannelStrip_init ''2'' [(''group'', ''drums'')]) = Some (0 + (- 4)) \<and>
   db_to_fader (0 + (- 4)) = 13 / 20 \<and>
   (\<exists>n cs1 cs2. py_int (id_str (ChannelStrip_init ''2'' [(''group'', ''drums'')])) = Some n \<and>
      published (run_mixing_logic (clock_at 0) (scenario_brain\<lparr>speech_active := True\<rparr>)) =
        Inr (cs1 @ [\<lparr> address = ''/ch/'' @ format_02d n @ ''/mix/11/level'',
                       args = [13 / 20] \<rparr>] @ cs2))"
proof -
  have h1: "numeric_ids (channels (scenario_brain\<lparr>speech_active := True\<rparr>))"
    by (simp add: scenario_channels numeric_ids_def ChannelStrip_init_def py_int_examples)
  have h2: "speech_active (scenario_brain\<lparr>speech_active := True\<rparr>)"
    by simp
  have h3: "channels (scenario_brain\<lparr>speech_active := True\<rparr>) =
     [(''1'', ChannelStrip_init ''1'' [(''group'', ''speech'')])] @
     (''2'', ChannelStrip_init ''2'' [(''group'', ''drums'')]) # []"
    by (simp add: scenario_channels)
  have h4: "\<not> is_overridden (ChannelStrip_init ''2'' [(''group'', ''drums'')])"
    by (simp add: ChannelStrip_init_def)
  have h5: "group (ChannelStrip_init ''2'' [(''group'', ''drums'')]) = ''drums''"
    by (simp add: ChannelStrip_init_def)
  have h5': "group (ChannelStrip_init ''2'' [(''group'', ''drums'')]) = ''drums'' \<or>
     group (ChannelStrip_init ''2'' [(''group'', ''drums'')]) = ''band''"
    using h5 by simp
  from ducked_music_fader [OF h1 h2 h3 h4 h5', of "clock_at 0"] h1 h2 h3 h4 h5
  show ?thesis by blast
qed

text \<open>
  The scenario of the specification: the telemetry \<^verbatim>\<open>{"1": -20.0, "2": -40.0}\<close> opens the
  gate, and the command for channel 2 carries 0.65, not 0.575.
\<close>

theorem ducked_music_fader_counterexample:
  "published (process_telemetry (clock_at 0) scenario_brain [(''1'', - 20), (''2'', - 40)]) =
     Inr [\<lparr> address = ''/ch/01/mix/11/level'', args = [3 / 4] \<rparr>,
          \<lparr> address = ''/ch/02/mix/11/level'', args = [13 / 20] \<rparr>] \<and>
   db_to_fader (- 4) = 13 / 20 \<and> db_to_fader (- 4) \<noteq> 23 / 40"
  by code_simp

text \<open>
  C5. For a vocals channel that is not overridden the error is -18 minus the last reading.
  Inside the deadband (\<open>|error| < 2\<close>) the pass publishes and logs what it would without
  the channel, and leaves the strip as it is. Outside the deadband the channel gets one
  command, with the fader value of the fixed target 0 dB, whatever the reading is.
\<close>

theorem vocals_deadband_and_fallback:
  assumes c: "channels b = pre @ (k, ch) # post"
    and o: "\<not> is_overridden ch"
    and g: "group ch = ''vocals''"
  shows "(\<bar>- 18 - current_dbfs ch\<bar> < 2 \<longrightarrow>
       published (run_mixing_logic clock b) =
         published (run_mixing_logic clock (b\<lparr>channels := pre @ post\<rparr>)) \<and>
       logged (run_mixing_logic clock b) =
         logged (run_mixing_logic clock (b\<lparr>channels := pre @ post\<rparr>)) \<and>
       channels (brain (run_mixing_logic clock b)) ! length pre = (k, ch)) \<and>
     (\<not> \<bar>- 18 - current_dbfs ch\<bar> < 2 \<longrightarrow> numeric_ids (channels b) \<longrightarrow>
       (\<exists>n cs1 cs2. py_int (id_str ch) = Some n \<and>
          published (run_mixing_logic clock (b\<lparr>channels := pre\<rparr>)) = Inr cs1 \<and>
          published (run_mixing_logic clock (b\<lparr>channels := post\<rparr>)) = Inr cs2 \<and>
          published (run_mixing_logic clock b) =
            Inr (cs1 @ [\<lparr> address = ''/ch/'' @ format_02d n @ ''/mix/11/level'',
                           args = [db_to_fader 0] \<rparr>] @ cs2)))"
proof (intro conjI impI)
  assume d: "\<bar>- 18 - current_dbfs ch\<bar> < 2"
  have "group_policy (duck_amount b) ch = None"
    using g d by (simp add: group_policy_def)
  then have s: "mix_channel (clock k) (duck_amount b) ch = (ch, [], Skip)"
    by (simp add: mix_channel_normal [OF o] decide_def)
  from run_mixing_logic_skip [where clock = clock and k = k, OF s c]
  show "published (run_mixing_logic clock b) =
         published (run_mixing_logic clock (b\<lparr>channels := pre @ post\<rparr>))"
    and "logged (run_mixing_logic clock b) =
         logged (run_mixing_logic clock (b\<lparr>channels := pre @ post\<rparr>))"
    and "channels (brain (run_mixing_logic clock b)) ! length pre = (k, ch)"
    by simp_all
next
  assume d: "\<not> \<bar>- 18 - current_dbfs ch\<bar> < 2" and n: "numeric_ids (channels b)"
  have p: "group_policy (duck_amount b) ch = Some 0"
    using g d by (simp add: group_policy_def)
  from numeric_ids_entry [OF n c] obtain i where i: "py_int (id_str ch) = Some i" ..
  have m: "mix_channel (clock k) (duck_amount b) ch =
      (ch, [], Emit \<lparr> address = ''/ch/'' @ format_02d i @ ''/mix/11/level'',
                       args = [db_to_fader 0] \<rparr>)"
    by (simp add: mix_channel_normal [OF o] decide_emit [OF p i])
  from run_mixing_logic_split [OF n c, of clock] m i
  show "\<exists>n cs1 cs2. py_int (id_str ch) = Some n \<and>
          published (run_mixing_logic clock (b\<lparr>channels := pre\<rparr>)) = Inr cs1 \<and>
          published (run_mixing_logic clock (b\<lparr>channels := post\<rparr>)) = Inr cs2 \<and>
          published (run_mixing_logic clock b) =
            Inr (cs1 @ [\<lparr> address = ''/ch/'' @ format_02d n @ ''/mix/11/level'',
                           args = [db_to_fader 0] \<rparr>] @ cs2)"
    by (auto simp: emitted_def)
qed


theorem vocals_deadband_and_fallback_witness:
  "channels (vocal_brain (- 39 / 2)) = [] @ (''3'', vocal_strip (- 39 / 2)) # [] \<and>
   \<not> is_overridden (vocal_strip (- 39 / 2)) \<and> group (vocal_strip (- 39 / 2)) = ''vocals'' \<and>
   \<bar>- 18 - current_dbfs (vocal_strip (- 39 / 2))\<bar> < 2 \<and>
   published (run_mixing_logic (clock_at 0) (vocal_brain (- 39 / 2))) =
     published (run_mixing_logic (clock_at 0) ((vocal_brain (- 39 / 2))\<lparr>channels := [] @ []\<rparr>)) \<and>
   published (run_mixing_logic (clock_at 0) (vocal_brain (- 39 / 2))) = Inr [] \<and>
   channels (vocal_brain (- 12)) = [] @ (''3'', vocal_strip (- 12)) # [] \<and>
   \<not> is_overridden (vocal_strip (- 12)) \<and> group (vocal_strip (- 12)) = ''vocals'' \<and>
   \<not> \<bar>- 18 - current_dbfs (vocal_strip (- 12))\<bar> < 2 \<and>
   numeric_ids (channels (vocal_brain (- 12))) \<and>
   (\<exists>n cs1 cs2. py_int (id_str (vocal_strip (- 12))) = Some n \<and>
      published (run_mixing_logic (clock_at 0) ((vocal_brain (- 12))\<lparr>channels := []\<rparr>)) = Inr cs1 \<and>
      published (run_mixing_logic (clock_at 0) ((vocal_brain (- 12))\<lparr>channels := []\<rparr>)) = Inr cs2 \<and>
      published (run_mixing_logic (clock_at 0) (vocal_brain (- 12))) =
        Inr (cs1 @ [\<lparr> address = ''/ch/'' @ format_02d n @ ''/mix/11/level'',
                       args = [db_to_fader 0] \<rparr>] @ cs2)) \<and>
   published (run_mixing_logic (clock_at 0) (vocal_brain (- 12))) =
     Inr [\<lparr> address = ''/ch/03/mix/11/level'', args = [3 / 4] \<rparr>]"
proof -
  have a1: "channels (vocal_brain (- 39 / 2)) = [] @ (''3'', vocal_strip (- 39 / 2)) # []"
    by (simp add: vocal_brain_def)
  have a2: "\<not> is_overridden (vocal_strip (- 39 / 2))"
    by (simp add: vocal_strip_def ChannelStrip_init_def)
  have a3: "group (vocal_strip (- 39 / 2)) = ''vocals''"
    by (simp add: vocal_strip_def ChannelStrip_init_def)
  have a4: "\<bar>- 18 - current_dbfs (vocal_strip (- 39 / 2))\<bar> < 2"
    by (simp add: vocal_strip_def)
  have a5: "published (run_mixing_logic (clock_at 0) (vocal_brain (- 39 / 2))) = Inr []"
    by code_simp
  have b1: "channels (vocal_brain (- 12)) = [] @ (''3'', vocal_strip (- 12)) # []"
    by (simp add: vocal_brain_def)
  have b2: "\<not> is_overridden (vocal_strip (- 12))"
    by (simp add: vocal_strip_def ChannelStrip_init_def)
  have b3: "group (vocal_strip (- 12)) = ''vocals''"
    by (simp add: vocal_strip_def ChannelStrip_init_def)
  have b4: "\<not> \<bar>- 18 - current_dbfs (vocal_strip (- 12))\<bar> < 2"
    by (simp add: vocal_strip_def)
  have b5: "numeric_ids (channels (vocal_brain (- 12)))"
    by (simp add: vocal_brain_def vocal_strip_def numeric_ids_def ChannelStrip_init_def
        py_int_examples)
  have b6: "published (run_mixing_logic (clock_at 0) (vocal_brain (- 12))) =
     Inr [\<lparr> address = ''/ch/03/mix/11/level'', args = [3 / 4] \<rparr>]"
    by code_simp
  from vocals_deadband_and_fallback [OF a1 a2 a3, of "clock_at 0"] a4
  have a: "published (run_mixing_logic (clock_at 0) (vocal_brain (- 39 / 2))) =
     published (run_mixing_logic (clock_at 0) ((vocal_brain (- 39 / 2))\<lparr>channels := [] @ []\<rparr>))"
    by blast
  from vocals_deadband_and_fallback [OF b1 b2 b3, of "clock_at 0"] b4 b5
  have b: "\<exists>n cs1 cs2. py_int (id_str (vocal_strip (- 12))) = Some n \<and>
      published (run_mixing_logic (clock_at 0) ((vocal_brain (- 12))\<lparr>channels := []\<rparr>)) = Inr cs1 \<and>
      published (run_mixing_logic (clock_at 0) ((vocal_brain (- 12))\<lparr>channels := []\<rparr>)) = Inr cs2 \<and>
      published (run_mixing_logic (clock_at 0) (vocal_brain (- 12))) =
        Inr (cs1 @ [\<lparr> address = ''/ch/'' @ format_02d n @ ''/mix/11/level'',
                       args = [db_to_fader 0] \<rparr>] @ cs2)"
    by blast
  from a1 a2 a3 a4 a a5 b1 b2 b3 b4 b5 b b6 show ?thesis by blast
qed

text \<open>
  C6. An overridden channel whose end time has not passed is skipped: the pass publishes
  and logs what it would without the channel, and the strip keeps its override. Once the
  clock is past the end time, the pass clears the flag, logs one line for the channel, and
  publishes what it would for the same strip without the override. Over the whole table,
  a pass either leaves a strip as it is or clears the override of an expired one: it
  never sets an override.
\<close>

theorem override_lifecycle:
  assumes c: "channels b = pre @ (k, ch) # post"
    and o: "is_overridden ch"
  shows "(clock k \<le> override_end_time ch \<longrightarrow>
       published (run_mixing_logic clock b) =
         published (run_mixing_logic clock (b\<lparr>channels := pre @ post\<rparr>)) \<and>
       logged (run_mixing_logic clock b) =
         logged (run_mixing_logic clock (b\<lparr>channels := pre @ post\<rparr>)) \<and>
       channels (brain (run_mixing_logic clock b)) ! length pre = (k, ch)) \<and>
     (clock k > override_end_time ch \<longrightarrow> numeric_ids (channels b) \<longrightarrow>
       channels (brain (run_mixing_logic clock b)) ! length pre =
         (k, ch\<lparr>is_overridden := False\<rparr>) \<and>
       logged (run_mixing_logic clock b) =
         logged (run_mixing_logic clock (b\<lparr>channels := pre\<rparr>)) @
         [''Override ended for '' @ name ch] @
         logged (run_mixing_logic clock (b\<lparr>channels := post\<rparr>)) \<and>
       published (run_mixing_logic clock b) =
         published (run_mixing_logic clock
           (b\<lparr>channels := pre @ (k, ch\<lparr>is_overridden := False\<rparr>) # post\<rparr>))) \<and>
     list_all2 (override_transition clock) (channels b)
       (channels (brain (run_mixing_logic clock b)))"
proof (intro conjI impI)
  assume t: "clock k \<le> override_end_time ch"
  have s: "mix_channel (clock k) (duck_amount b) ch = (ch, [], Skip)"
    by (rule mix_channel_locked [OF o t])
  from run_mixing_logic_skip [where clock = clock and k = k, OF s c]
  show "published (run_mixing_logic clock b) =
         published (run_mixing_logic clock (b\<lparr>channels := pre @ post\<rparr>))"
    and "logged (run_mixing_logic clock b) =
         logged (run_mixing_logic clock (b\<lparr>channels := pre @ post\<rparr>))"
    and "channels (brain (run_mixing_logic clock b)) ! length pre = (k, ch)"
    by simp_all
next
  assume t: "clock k > override_end_time ch" and n: "numeric_ids (channels b)"
  let ?ch = "ch\<lparr>is_overridden := False\<rparr>"
  let ?b = "b\<lparr>channels := pre @ (k, ?ch) # post\<rparr>"
  have m: "mix_channel (clock k) (duck_amount b) ch =
      (?ch, [''Override ended for '' @ name ch], decide (duck_amount b) ?ch)"
    by (rule mix_channel_expired [OF o t])
  have m': "mix_channel (clock k) (duck_amount ?b) ?ch = (?ch, [], decide (duck_amount b) ?ch)"
    by (simp add: mix_channel_normal)
  have c': "channels ?b = pre @ (k, ?ch) # post" by simp
  have n': "numeric_ids (channels ?b)"
    using n c by (simp add: numeric_ids_def)
  note sp = run_mixing_logic_split [OF n c, of clock]
  note sp' = run_mixing_logic_split [OF n' c', of clock]
  from sp m show "channels (brain (run_mixing_logic clock b)) ! length pre = (k, ?ch)"
    by auto
  from sp m show "logged (run_mixing_logic clock b) =
         logged (run_mixing_logic clock (b\<lparr>channels := pre\<rparr>)) @
         [''Override ended for '' @ name ch] @
         logged (run_mixing_logic clock (b\<lparr>channels := post\<rparr>))"
    by auto
  from sp sp' m m' show "published (run_mixing_logic clock b) = published (run_mixing_logic clock ?b)"
    by auto
next
  show "list_all2 (override_transition clock) (channels b)
       (channels (brain (run_mixing_logic clock b)))"
    by (simp add: run_mixing_logic_loop mixing_loop_transition)
qed


theorem override_lifecycle_witness:
  "channels (locked_brain 100) = [] @ (''2'', locked_strip 100) # [] \<and>
   is_overridden (locked_strip 100) \<and>
   clock_at 50 ''2'' \<le> override_end_time (locked_strip 100) \<and>
   published (run_mixing_logic (clock_at 50) (locked_brain 100)) =
     published (run_mixing_logic (clock_at 50) ((locked_brain 100)\<lparr>channels := [] @ []\<rparr>)) \<and>
   logged (run_mixing_logic (clock_at 50) (locked_brain 100)) =
     logged (run_mixing_logic (clock_at 50) ((locked_brain 100)\<lparr>channels := [] @ []\<rparr>)) \<and>
   channels (brain (run_mixing_logic (clock_at 50) (locked_brain 100))) ! length ([] :: (string \<times> ChannelStrip) list) =
     (''2'', locked_strip 100) \<and>
   published (run_mixing_logic (clock_at 50) (locked_brain 100)) = Inr [] \<and>
   clock_at 150 ''2'' > override_end_time (locked_strip 100) \<and>
   numeric_ids (channels (locked_brain 100)) \<and>
   channels (brain (run_mixing_logic (clock_at 150) (locked_brain 100))) ! length ([] :: (string \<times> ChannelStrip) list) =
     (''2'', (locked_strip 100)\<lparr>is_overridden := False\<rparr>) \<and>
   logged (run_mixing_logic (clock_at 150) (locked_brain 100)) =
     logged (run_mixing_logic (clock_at 150) ((locked_brain 100)\<lparr>channels := []\<rparr>)) @
     [''Override ended for '' @ name (locked_strip 100)] @
     logged (run_mixing_logic (clock_at 150) ((locked_brain 100)\<lparr>channels := []\<rparr>)) \<and>
   published (run_mixing_logic (clock_at 150) (locked_brain 100)) =
     published (run_mixing_logic (clock_at 150)
       ((locked_brain 100)\<lparr>channels := [] @ (''2'', (locked_strip 100)\<lparr>is_overridden := False\<rparr>) # []\<rparr>)) \<and>
   list_all2 (override_transition (clock_at 150)) (channels (locked_brain 100))
     (channels (brain (run_mixing_logic (clock_at 150) (locked_brain 100)))) \<and>
   logged (run_mixing_logic (clock_at 150) (locked_brain 100)) = [''Override ended for Ch 2''] \<and>
   published (run_mixing_logic (clock_at 150) (locked_brain 100)) =
     Inr [\<lparr> address = ''/ch/02/mix/11/level'', args = [3 / 4] \<rparr>]"
proof -
  have h1: "channels (locked_brain 100) = [] @ (''2'', locked_strip 100) # []"
    by (simp add: locked_brain_def)
  have h2: "is_overridden (locked_strip 100)"
    by (simp add: locked_strip_def)
  have h3: "clock_at 50 ''2'' \<le> override_end_time (locked_strip 100)"
    by (simp add: locked_strip_def clock_at_def)
  have h4: "clock_at 150 ''2'' > override_end_time (locked_strip 100)"
    by (simp add: locked_strip_def clock_at_def)
  have h5: "numeric_ids (channels (locked_brain 100))"
    by (simp add: locked_brain_def locked_strip_def numeric_ids_def ChannelStrip_init_def
        py_int_examples)
  have e1: "published (run_mixing_logic (clock_at 50) (locked_brain 100)) = Inr []"
    by code_simp
  have e2: "logged (run_mixing_logic (clock_at 150) (locked_brain 100)) = [''Override ended for Ch 2'']"
    by code_simp
  have e3: "published (run_mixing_logic (clock_at 150) (locked_brain 100)) =
     Inr [\<lparr> address = ''/ch/02/mix/11/level'', args = [3 / 4] \<rparr>]"
    by code_simp
  note a = override_lifecycle [OF h1 h2, of "clock_at 50"]
  note b = override_lifecycle [OF h1 h2, of "clock_at 150"]
  from a h3 have a': "published (run_mixing_logic (clock_at 50) (locked_brain 100)) =
     published (run_mixing_logic (clock_at 50) ((locked_brain 100)\<lparr>channels := [] @ []\<rparr>)) \<and>
   logged (run_mixing_logic (clock_at 50) (locked_brain 100)) =
     logged (run_mixing_logic (clock_at 50) ((locked_brain 100)\<lparr>channels := [] @ []\<rparr>)) \<and>
   channels (brain (run_mixing_logic (clock_at 50) (locked_brain 100))) ! length ([] :: (string \<times> ChannelStrip) list) =
     (''2'', locked_strip 100)"
    by blast
  from b h4 h5 have b': "channels (brain (run_mixing_logic (clock_at 150) (locked_brain 100))) ! length ([] :: (string \<times> ChannelStrip) list) =
     (''2'', (locked_strip 100)\<lparr>is_overridden := False\<rparr>) \<and>
   logged (run_mixing_logic (clock_at 150) (locked_brain 100)) =
     logged (run_mixing_logic (clock_at 150) ((locked_brain 100)\<lparr>channels := []\<rparr>)) @
     [''Override ended for '' @ name (locked_strip 100)] @
     logged (run_mixing_logic (clock_at 150) ((locked_brain 100)\<lparr>channels := []\<rparr>)) \<and>
   published (run_mixing_logic (clock_at 150) (locked_brain 100)) =
     published (run_mixing_logic (clock_at 150)
       ((locked_brain 100)\<lparr>channels := [] @ (''2'', (locked_strip 100)\<lparr>is_overridden := False\<rparr>) # []\<rparr>)) \<and>
   list_all2 (override_transition (clock_at 150)) (channels (locked_brain 100))
     (channels (brain (run_mixing_logic (clock_at 150) (locked_brain 100))))"
    by blast
  from h1 h2 h3 a' e1 h4 h5 b' e2 e3 show ?thesis by blast
qed

section \<open>Fader values of a pass\<close>

text \<open>
  The ducking offset is 0 or -4 dB, so the policy yields 0 or -4 dB and the curve gives
  0.75 or 0.65.
\<close>

lemma decide_args:
  "d = 0 \<or> d = - 4 \<Longrightarrow> decide d ch = Emit cmd \<Longrightarrow> args cmd = [3 / 4] \<or> args cmd = [13 / 20]"
  by (auto simp: decide_def group_policy_def db_to_fader_def Let_def
      split: option.splits if_splits)

lemma mix_channel_args:
  "d = 0 \<or> d = - 4 \<Longrightarrow> snd (snd (mix_channel now d ch)) = Emit cmd \<Longrightarrow>
   args cmd = [3 / 4] \<or> args cmd = [13 / 20]"
  using decide_args [of d ch cmd] decide_args [of d "ch\<lparr>is_overridden := False\<rparr>" cmd]
  by (auto simp: mix_channel_def split: if_splits)

lemma mixing_loop_args:
  "d = 0 \<or> d = - 4 \<Longrightarrow> snd (snd (mixing_loop clock d chans)) = Inr cmds \<Longrightarrow>
   cmd \<in> set cmds \<Longrightarrow> args cmd = [3 / 4] \<or> args cmd = [13 / 20]"
proof (induction chans arbitrary: cmds)
  case Nil
  then show ?case by simp
next
  case (Cons p chans)
  obtain k ch where p: "p = (k, ch)" by (cases p)
  obtain ch' lg dec where m: "mix_channel (clock k) d ch = (ch', lg, dec)"
    by (cases "mix_channel (clock k) d ch")
  obtain rest' lg' r where l: "mixing_loop clock d chans = (rest', lg', r)"
    by (cases "mixing_loop clock d chans")
  show ?case
  proof (cases dec)
    case Skip
    with Cons.prems p m l have "snd (snd (mixing_loop clock d chans)) = Inr cmds" by simp
    from Cons.IH [OF Cons.prems(1) this Cons.prems(3)] show ?thesis .
  next
    case (Emit c)
    with Cons.prems(2) p m l obtain cs where r: "r = Inr cs" and cs: "cmds = c # cs"
      by (cases r) auto
    from r l have i: "snd (snd (mixing_loop clock d chans)) = Inr cs" by simp
    from m Emit have "snd (snd (mix_channel (clock k) d ch)) = Emit c" by simp
    from mix_channel_args [OF Cons.prems(1) this] Cons.IH [OF Cons.prems(1) i] Cons.prems(3) cs
    show ?thesis by auto
  next
    case (Raise e)
    with Cons.prems p m show ?thesis by simp
  qed
qed

lemma duck_amount_cases: "duck_amount b = 0 \<or> duck_amount b = - 4"
  by (simp add: duck_amount_def)

lemma run_mixing_logic_args:
  "published (run_mixing_logic clock b) = Inr cmds \<Longrightarrow> cmd \<in> set cmds \<Longrightarrow>
   \<exists>v. args cmd = [v] \<and> 0 \<le> v \<and> v \<le> 1"
  using mixing_loop_args [OF duck_amount_cases, of clock b "channels b" cmds cmd]
  by (auto simp: run_mixing_logic_loop)

section \<open>The update loop\<close>

text \<open>
  The update loop keeps the keys and writes nothing but \<^verbatim>\<open>current_dbfs\<close>; the running
  maximum ends above -35 exactly when a speech reading above -35 was seen.
\<close>

lemma level_update_refl: "level_update p p"
proof -
  have "snd p = (snd p)\<lparr>current_dbfs := current_dbfs (snd p)\<rparr>" by simp
  then show ?thesis unfolding level_update_def by blast
qed

lemma level_update_trans: "level_update p q \<Longrightarrow> level_update q r \<Longrightarrow> level_update p r"
  by (auto simp: level_update_def)

lemma map_entry_level_update:
  "list_all2 level_update chans (AList.map_entry k (\<lambda>c. c\<lparr>current_dbfs := v\<rparr>) chans)"
proof (induction chans)
  case Nil
  show ?case by simp
next
  case (Cons p chans)
  have "level_update p (k, (snd p)\<lparr>current_dbfs := v\<rparr>)" if "fst p = k"
    using that by (auto simp: level_update_def)
  then show ?case
    using Cons.IH by (simp add: level_update_refl list_all2_same)
qed

lemma update_levels_level_update:
  "list_all2 level_update chans (fst (update_levels ls chans m))"
proof (induction ls arbitrary: chans m)
  case Nil
  show ?case by (simp add: list_all2_same level_update_refl)
next
  case (Cons p ls)
  obtain k db where p: "p = (k, db)" by (cases p)
  show ?case
  proof (cases "map_of chans k")
    case None
    with p Cons.IH show ?thesis by simp
  next
    case (Some c)
    let ?chans = "AList.map_entry k (\<lambda>c. c\<lparr>current_dbfs := db\<rparr>) chans"
    let ?m = "if group c = ''speech'' \<and> db > - 35 then max m db else m"
    have "list_all2 level_update chans ?chans" by (rule map_entry_level_update)
    moreover have "list_all2 level_update ?chans (fst (update_levels ls ?chans ?m))"
      by (rule Cons.IH)
    ultimately have "list_all2 level_update chans (fst (update_levels ls ?chans ?m))"
      by (rule list_all2_trans [rotated]) (rule level_update_trans)
    with p Some show ?thesis by simp
  qed
qed

lemma level_update_numeric_ids:
  "list_all2 level_update xs ys \<Longrightarrow> numeric_ids xs \<Longrightarrow> numeric_ids ys"
  by (induction rule: list_all2_induct) (auto simp: numeric_ids_def level_update_def)

lemma level_update_target:
  "list_all2 level_update xs ys \<Longrightarrow>
   map (\<lambda>(k, c). (k, target_fader_level c)) ys = map (\<lambda>(k, c). (k, target_fader_level c)) xs"
  by (induction rule: list_all2_induct) (auto simp: level_update_def)

lemma override_transition_target:
  "list_all2 (override_transition clock) xs ys \<Longrightarrow>
   map (\<lambda>(k, c). (k, target_fader_level c)) ys = map (\<lambda>(k, c). (k, target_fader_level c)) xs"
  by (induction rule: list_all2_induct) (auto simp: override_transition_def)

lemma override_transition_map_of:
  "list_all2 (override_transition clock) xs ys \<Longrightarrow> map_of xs k = Some c \<Longrightarrow>
   \<exists>c'. map_of ys k = Some c' \<and> current_dbfs c' = current_dbfs c"
  by (induction rule: list_all2_induct) (auto simp: override_transition_def)

lemma map_entry_group:
  "(\<exists>c'. map_of (AList.map_entry k (\<lambda>c. c\<lparr>current_dbfs := v\<rparr>) chans) k' = Some c' \<and> group c' = g) =
   (\<exists>c. map_of chans k' = Some c \<and> group c = g)"
  by (auto simp: map_of_map_entry split: option.splits)

lemma map_entry_None:
  "(map_of (AList.map_entry k f chans) k' = None) = (map_of chans k' = None)"
  by (simp add: map_of_map_entry split: option.splits)

lemma update_levels_gate:
  "(snd (update_levels ls chans m) > - 35) =
   (m > - 35 \<or>
    (\<exists>(k, db) \<in> set ls. db > - 35 \<and> (\<exists>c. map_of chans k = Some c \<and> group c = ''speech'')))"
proof (induction ls arbitrary: chans m)
  case Nil
  show ?case by simp
next
  case (Cons p ls)
  obtain k db where p: "p = (k, db)" by (cases p)
  show ?case
  proof (cases "map_of chans k")
    case None
    with p Cons.IH [of chans m] show ?thesis by simp
  next
    case (Some c)
    let ?chans = "AList.map_entry k (\<lambda>c. c\<lparr>current_dbfs := db\<rparr>) chans"
    let ?m = "if group c = ''speech'' \<and> db > - 35 then max m db else m"
    have m: "(?m > - 35) = (m > - 35 \<or> (group c = ''speech'' \<and> db > - 35))"
      by auto
    have "(snd (update_levels (p # ls) chans m) > - 35) = (snd (update_levels ls ?chans ?m) > - 35)"
      using p Some by simp
    also have "\<dots> = (?m > - 35 \<or>
        (\<exists>(k, db) \<in> set ls. db > - 35 \<and> (\<exists>c. map_of ?chans k = Some c \<and> group c = ''speech'')))"
      by (rule Cons.IH)
    also have "\<dots> = (m > - 35 \<or> (group c = ''speech'' \<and> db > - 35) \<or>
        (\<exists>(k, db) \<in> set ls. db > - 35 \<and> (\<exists>c. map_of chans k = Some c \<and> group c = ''speech'')))"
      unfolding m map_entry_group by blast
    also have "\<dots> = (m > - 35 \<or>
        (\<exists>(k, db) \<in> set (p # ls). db > - 35 \<and> (\<exists>c. map_of chans k = Some c \<and> group c = ''speech'')))"
      using p Some by auto
    finally show ?thesis .
  qed
qed

lemma update_levels_unknown:
  "update_levels ls chans m =
   update_levels (filter (\<lambda>(k, db). map_of chans k \<noteq> None) ls) chans m"
proof (induction ls arbitrary: chans m)
  case Nil
  show ?case by simp
next
  case (Cons p ls)
  obtain k db where p: "p = (k, db)" by (cases p)
  show ?case
  proof (cases "map_of chans k")
    case None
    with p Cons.IH [of chans m] show ?thesis by simp
  next
    case (Some c)
    let ?chans = "AList.map_entry k (\<lambda>c. c\<lparr>current_dbfs := db\<rparr>) chans"
    have f: "filter (\<lambda>(k, db). map_of ?chans k \<noteq> None) ls =
        filter (\<lambda>(k, db). map_of chans k \<noteq> None) ls"
      by (simp add: map_entry_None)
    show ?thesis
      using p Some Cons.IH [of ?chans] f by simp
  qed
qed

lemma update_levels_other:
  "k \<notin> fst ` set ls \<Longrightarrow> map_of (fst (update_levels ls chans m)) k = map_of chans k"
proof (induction ls arbitrary: chans m)
  case Nil
  show ?case by simp
next
  case (Cons p ls)
  obtain k' db where p: "p = (k', db)" by (cases p)
  from Cons.prems p have ne: "k' \<noteq> k" and r: "k \<notin> fst ` set ls" by auto
  show ?case
    using p ne Cons.IH [OF r] by (simp add: map_of_map_entry split: option.splits)
qed

lemma update_levels_sets:
  "distinct (map fst ls) \<Longrightarrow> (k, db) \<in> set ls \<Longrightarrow> map_of chans k = Some c \<Longrightarrow>
   map_of (fst (update_levels ls chans m)) k = Some (c\<lparr>current_dbfs := db\<rparr>)"
proof (induction ls arbitrary: chans m c)
  case Nil
  then show ?case by simp
next
  case (Cons p ls)
  obtain k' db' where p: "p = (k', db')" by (cases p)
  show ?case
  proof (cases "k' = k")
    case True
    with Cons.prems p have d: "db' = db" and r: "k \<notin> fst ` set ls"
      by (auto simp: image_iff)
    show ?thesis
      using p True d Cons.prems(3) update_levels_other [OF r]
      by (simp add: map_of_map_entry)
  next
    case False
    with Cons.prems p have i: "(k, db) \<in> set ls" and di: "distinct (map fst ls)" by auto
    show ?thesis
    proof (cases "map_of chans k'")
      case None
      with p Cons.IH [OF di i Cons.prems(3)] show ?thesis by simp
    next
      case (Some c')
      let ?chans = "AList.map_entry k' (\<lambda>c. c\<lparr>current_dbfs := db'\<rparr>) chans"
      have "map_of ?chans k = Some c"
        using False Cons.prems(3) by (simp add: map_of_map_entry)
      from Cons.IH [OF di i this] p Some show ?thesis by simp
    qed
  qed
qed

lemma process_telemetry_run:
  "process_telemetry clock b levels =
     run_mixing_logic clock
       (b\<lparr>channels := fst (update_levels levels (channels b) (- 90)),
          speech_active := (snd (update_levels levels (channels b) (- 90)) > - 35)\<rparr>)"
  by (simp add: process_telemetry_def split: prod.splits)


lemma process_telemetry_returns:
  assumes n: "numeric_ids (channels b)"
  shows "\<exists>cmds. published (process_telemetry clock b levels) = Inr cmds"
proof -
  have "numeric_ids (fst (update_levels levels (channels b) (- 90)))"
    by (rule level_update_numeric_ids [OF update_levels_level_update n])
  then show ?thesis
    by (simp add: process_telemetry_run run_mixing_logic_loop mixing_loop_numeric)
qed

section \<open>The ducking gate\<close>

text \<open>
  C4. After a telemetry message the ducking gate is active exactly when the message holds
  a reading strictly above -35 dB for a configured channel of the group \<^verbatim>\<open>speech\<close>. A
  reading of exactly -35 dB does not open it, and with no speech channel in the table or
  none in the message the running maximum stays at the floor -90 and the gate is closed.
\<close>

theorem ducking_gate_strict:
  "speech_active (brain (process_telemetry clock b levels)) =
     (\<exists>(k, db) \<in> set levels.
        db > - 35 \<and> (\<exists>c. map_of (channels b) k = Some c \<and> group c = ''speech''))"
  by (simp add: process_telemetry_run run_mixing_logic_loop update_levels_gate)

theorem ducking_gate_strict_witness:
  "\<not> speech_active (brain (process_telemetry (clock_at 0) scenario_brain [(''1'', - 35)])) \<and>
   speech_active (brain (process_telemetry (clock_at 0) scenario_brain [(''1'', - 349 / 10)])) \<and>
   \<not> speech_active (brain (process_telemetry (clock_at 0) scenario_brain [(''2'', - 20)])) \<and>
   \<not> speech_active (brain (process_telemetry (clock_at 0) (locked_brain 0) [(''2'', - 20)]))"
  using ducking_gate_strict [of "clock_at 0" scenario_brain "[(''1'', - 35)]"]
    ducking_gate_strict [of "clock_at 0" scenario_brain "[(''1'', - 349 / 10)]"]
    ducking_gate_strict [of "clock_at 0" scenario_brain "[(''2'', - 20)]"]
    ducking_gate_strict [of "clock_at 0" "locked_brain 0" "[(''2'', - 20)]"]
  by (simp add: scenario_channels ChannelStrip_init_def locked_brain_def locked_strip_def)

section \<open>The target field and the fader values\<close>

text \<open>
  C7, as the code has it. Neither the decision pass nor the telemetry update before it
  assigns \<^verbatim>\<open>target_fader_level\<close>: every strip keeps the value it had, 0.75 from the
  constructor. The converted target travels in the command only.
\<close>

theorem target_fader_level_unchanged:
  "map (\<lambda>(k, c). (k, target_fader_level c)) (channels (brain (run_mixing_logic clock b))) =
     map (\<lambda>(k, c). (k, target_fader_level c)) (channels b) \<and>
   map (\<lambda>(k, c). (k, target_fader_level c)) (channels (brain (process_telemetry clock b levels))) =
     map (\<lambda>(k, c). (k, target_fader_level c)) (channels b)"
proof -
  have r: "map (\<lambda>(k, c). (k, target_fader_level c)) (channels (brain (run_mixing_logic clock b'))) =
     map (\<lambda>(k, c). (k, target_fader_level c)) (channels b')" for b'
    by (simp add: run_mixing_logic_loop override_transition_target [OF mixing_loop_transition])
  have u: "map (\<lambda>(k, c). (k, target_fader_level c)) (fst (update_levels levels (channels b) (- 90))) =
     map (\<lambda>(k, c). (k, target_fader_level c)) (channels b)"
    by (rule level_update_target [OF update_levels_level_update])
  show ?thesis
    using u by (simp add: r process_telemetry_run)
qed

text \<open>
  In the scenario of the specification channel 2 is ducked to -4 dB and its command carries
  0.65, while its \<^verbatim>\<open>target_fader_level\<close> is still 0.75 after the pass.
\<close>

theorem target_fader_level_counterexample:
  "published (process_telemetry (clock_at 0) scenario_brain [(''1'', - 20), (''2'', - 40)]) =
     Inr [\<lparr> address = ''/ch/01/mix/11/level'', args = [3 / 4] \<rparr>,
          \<lparr> address = ''/ch/02/mix/11/level'', args = [13 / 20] \<rparr>] \<and>
   db_to_fader (0 + (- 4)) = 13 / 20 \<and>
   target_fader_level (snd (channels (brain
     (process_telemetry (clock_at 0) scenario_brain [(''1'', - 20), (''2'', - 40)])) ! 1)) = 3 / 4 \<and>
   target_fader_level (snd (channels (brain
     (process_telemetry (clock_at 0) scenario_brain [(''1'', - 20), (''2'', - 40)])) ! 1)) \<noteq>
     db_to_fader (0 + (- 4))"
  by code_simp

text \<open>
  C8. Every command that a pass publishes carries exactly one argument, and it lies
  between 0 and 1, for every state of the brain and every telemetry message. With numeric
  channel keys the pass does publish its batch.
\<close>

theorem command_args_unit_interval:
  "(\<forall>cmds. published (run_mixing_logic clock b) = Inr cmds \<longrightarrow>
      (\<forall>cmd \<in> set cmds. \<exists>v. args cmd = [v] \<and> 0 \<le> v \<and> v \<le> 1)) \<and>
   (\<forall>cmds. published (process_telemetry clock b levels) = Inr cmds \<longrightarrow>
      (\<forall>cmd \<in> set cmds. \<exists>v. args cmd = [v] \<and> 0 \<le> v \<and> v \<le> 1)) \<and>
   (numeric_ids (channels b) \<longrightarrow>
      (\<exists>cmds. published (process_telemetry clock b levels) = Inr cmds))"
  using run_mixing_logic_args process_telemetry_returns
  by (simp add: process_telemetry_run)

theorem command_args_unit_interval_witness:
  "numeric_ids (channels scenario_brain) \<and>
   published (process_telemetry (clock_at 0) scenario_brain [(''1'', - 20), (''2'', - 40)]) =
     Inr [\<lparr> address = ''/ch/01/mix/11/level'', args = [3 / 4] \<rparr>,
          \<lparr> address = ''/ch/02/mix/11/level'', args = [13 / 20] \<rparr>] \<and>
   (\<exists>v. args \<lparr> address = ''/ch/01/mix/11/level'', args = [3 / 4] \<rparr> = [v] \<and> 0 \<le> v \<and> v \<le> 1) \<and>
   (\<exists>v. args \<lparr> address = ''/ch/02/mix/11/level'', args = [13 / 20] \<rparr> = [v] \<and> 0 \<le> v \<and> v \<le> 1)"
proof -
  have h: "numeric_ids (channels scenario_brain)"
    by (simp add: scenario_channels numeric_ids_def ChannelStrip_init_def py_int_examples)
  have e: "published (process_telemetry (clock_at 0) scenario_brain [(''1'', - 20), (''2'', - 40)]) =
     Inr [\<lparr> address = ''/ch/01/mix/11/level'', args = [3 / 4] \<rparr>,
          \<lparr> address = ''/ch/02/mix/11/level'', args = [13 / 20] \<rparr>]"
    by code_simp
  from command_args_unit_interval
    [of "clock_at 0" scenario_brain "[(''1'', - 20), (''2'', - 40)]"] e
  have "\<forall>cmd \<in> set [\<lparr> address = ''/ch/01/mix/11/level'', args = [3 / 4] \<rparr>,
          \<lparr> address = ''/ch/02/mix/11/level'', args = [13 / 20] \<rparr>].
       \<exists>v. args cmd = [v] \<and> 0 \<le> v \<and> v \<le> 1"
    by blast
  then have "(\<exists>v. args \<lparr> address = ''/ch/01/mix/11/level'', args = [3 / 4] \<rparr> = [v] \<and> 0 \<le> v \<and> v \<le> 1) \<and>
   (\<exists>v. args \<lparr> address = ''/ch/02/mix/11/level'', args = [13 / 20] \<rparr> = [v] \<and> 0 \<le> v \<and> v \<le> 1)"
    by (simp del: CommandMessage.simps)
  with h e show ?thesis by blast
qed

section \<open>Telemetry for channels that are not configured\<close>

text \<open>
  C9. A telemetry message is processed as the message without its unknown channel ids is:
  the same state, log and commands, and so the same outcome. Each reading of a known
  channel is stored in its \<^verbatim>\<open>current_dbfs\<close> (a JSON object has each key once), and with
  numeric channel keys the call returns with its batch.
\<close>

theorem unknown_channels_ignored:
  "process_telemetry clock b levels =
     process_telemetry clock b (filter (\<lambda>(k, db). map_of (channels b) k \<noteq> None) levels) \<and>
   (distinct (map fst levels) \<longrightarrow>
      (\<forall>(k, db) \<in> set levels. \<forall>c. map_of (channels b) k = Some c \<longrightarrow>
         (\<exists>c'. map_of (channels (brain (process_telemetry clock b levels))) k = Some c' \<and>
               current_dbfs c' = db))) \<and>
   (numeric_ids (channels b) \<longrightarrow>
      (\<exists>cmds. published (process_telemetry clock b levels) = Inr cmds))"
proof (intro conjI impI ballI)
  show "process_telemetry clock b levels =
     process_telemetry clock b (filter (\<lambda>(k, db). map_of (channels b) k \<noteq> None) levels)"
    using update_levels_unknown [of levels "channels b" "- 90"]
    by (simp add: process_telemetry_def)
next
  fix p
  assume d: "distinct (map fst levels)" and i: "p \<in> set levels"
  show "case p of (k, db) \<Rightarrow> \<forall>c. map_of (channels b) k = Some c \<longrightarrow>
         (\<exists>c'. map_of (channels (brain (process_telemetry clock b levels))) k = Some c' \<and>
               current_dbfs c' = db)"
  proof (cases p)
    case (Pair k db)
    have "\<exists>c'. map_of (channels (brain (process_telemetry clock b levels))) k = Some c' \<and>
               current_dbfs c' = db" if c: "map_of (channels b) k = Some c" for c
    proof -
      let ?chans = "fst (update_levels levels (channels b) (- 90))"
      from i Pair have "(k, db) \<in> set levels" by simp
      from update_levels_sets [OF d this c]
      have u: "map_of ?chans k = Some (c\<lparr>current_dbfs := db\<rparr>)" .
      have "channels (brain (process_telemetry clock b levels)) =
          fst (mixing_loop clock
            (duck_amount (b\<lparr>channels := ?chans,
               speech_active := (snd (update_levels levels (channels b) (- 90)) > - 35)\<rparr>)) ?chans)"
        by (simp add: process_telemetry_run run_mixing_logic_loop)
      with override_transition_map_of [OF mixing_loop_transition u, of clock]
      show ?thesis by simp
    qed
    with Pair show ?thesis by blast
  qed
next
  assume "numeric_ids (channels b)"
  then show "\<exists>cmds. published (process_telemetry clock b levels) = Inr cmds"
    by (rule process_telemetry_returns)
qed


theorem unknown_channels_ignored_witness:
  "process_telemetry (clock_at 0) scenario_brain [(''1'', - 20), (''77'', - 3), (''2'', - 40)] =
     process_telemetry (clock_at 0) scenario_brain [(''1'', - 20), (''2'', - 40)] \<and>
   distinct (map fst [(''1'', - 20 :: rat), (''77'', - 3), (''2'', - 40)]) \<and>
   map_of (channels scenario_brain) ''2'' = Some (ChannelStrip_init ''2'' [(''group'', ''drums'')]) \<and>
   (\<exists>c'. map_of (channels (brain (process_telemetry (clock_at 0) scenario_brain
             [(''1'', - 20), (''77'', - 3), (''2'', - 40)]))) ''2'' = Some c' \<and>
         current_dbfs c' = - 40) \<and>
   numeric_ids (channels scenario_brain) \<and>
   (\<exists>cmds. published (process_telemetry (clock_at 0) scenario_brain
             [(''1'', - 20), (''77'', - 3), (''2'', - 40)]) = Inr cmds)"
proof -
  let ?levels = "[(''1'', - 20 :: rat), (''77'', - 3), (''2'', - 40)]"
  note t = unknown_channels_ignored [of "clock_at 0" scenario_brain ?levels]
  have f: "filter (\<lambda>(k, db). map_of (channels scenario_brain) k \<noteq> None) ?levels =
      [(''1'', - 20), (''2'', - 40)]"
    by (simp add: scenario_channels)
  have d: "distinct (map fst ?levels)" by simp
  have m: "map_of (channels scenario_brain) ''2'' = Some (ChannelStrip_init ''2'' [(''group'', ''drums'')])"
    by (simp add: scenario_channels)
  have h: "numeric_ids (channels scenario_brain)"
    by (simp add: scenario_channels numeric_ids_def ChannelStrip_init_def py_int_examples)
  have i: "(''2'', - 40) \<in> set ?levels" by simp
  from t f have a: "process_telemetry (clock_at 0) scenario_brain ?levels =
     process_telemetry (clock_at 0) scenario_brain [(''1'', - 20), (''2'', - 40)]"
    by simp
  from t d i m have b: "\<exists>c'. map_of (channels (brain (process_telemetry (clock_at 0) scenario_brain
             ?levels))) ''2'' = Some c' \<and> current_dbfs c' = - 40"
    by blast
  from t h have c: "\<exists>cmds. published (process_telemetry (clock_at 0) scenario_brain ?levels) = Inr cmds"
    by blast
  from a d m b h c show ?thesis by blast
qed

end
